theory Spec2Isabelle
  imports Main
begin

section \<open>Addresses, errors and Go's machine integers\<close>

text \<open>
  A \<^verbatim>\<open>net.IP\<close> is a byte slice of the standard library that may be \<^verbatim>\<open>nil\<close>.
  The repository never looks inside one: it compares it with \<^verbatim>\<open>nil\<close>, hands it to
  \<^verbatim>\<open>IPNet.Contains\<close> and prints it with \<^verbatim>\<open>String\<close>. An address value is
  therefore a type parameter \<open>'a\<close>, and a \<^verbatim>\<open>net.IP\<close> is \<open>'a option\<close> with
  \<open>None\<close> for \<^verbatim>\<open>nil\<close>. A \<^verbatim>\<open>*net.IPNet\<close> is used through its \<^verbatim>\<open>Contains\<close>
  method only and is represented by that predicate.
\<close>

type_synonym 'a IP = "'a option"

type_synonym 'a IPNet = "'a IP \<Rightarrow> bool"

text \<open>
  What a call can end with besides a result: an \<^verbatim>\<open>error\<close> value that the function returns
  (with its message), or a run-time panic.
\<close>

datatype error =
    Error string
  | Panic_index_out_of_range
  | Panic_nil_dereference

text \<open>
  Go's \<^verbatim>\<open>int\<close> is taken as the 64-bit two's complement integer of the common platforms;
  \<open>wrap_int\<close> is the wrap-around of its arithmetic, and \<open>int_of_uint\<close> the conversion
  \<^verbatim>\<open>int(o)\<close> of a \<^verbatim>\<open>uint\<close>, which reinterprets the bits.
\<close>

definition wrap_int :: "int \<Rightarrow> int" where
  "wrap_int x = (x + 2 ^ 63) mod 2 ^ 64 - 2 ^ 63"

definition int_of_uint :: "nat \<Rightarrow> int" where
  "int_of_uint n = wrap_int (int n)"

definition int_sub :: "int \<Rightarrow> int \<Rightarrow> int" where
  "int_sub a b = wrap_int (a - b)"

section \<open>extractor.go: the two resolvers\<close>

record 'a CIDRWhitelist =
  whitelist :: "'a IPNet list"

type_synonym OffsetIPExtractor = nat

text \<open>
  \<^verbatim>\<open>pop\<close>: the last element and the slice without it; \<^verbatim>\<open>nil\<close> and the slice itself
  when it is empty.
\<close>

definition pop :: "'a IP list \<Rightarrow> 'a IP \<times> 'a IP list" where
  "pop s =
     (let length = length s in
      if length = 0 then (None, s)
      else (s ! (length - 1), take (length - 1) s))"

text \<open>\<^verbatim>\<open>CIDRWhitelist.Contains\<close>: the first network that contains the address ends the loop.\<close>

fun Contains_range :: "'a IPNet list \<Rightarrow> 'a IP \<Rightarrow> bool" where
  "Contains_range [] ip = False"
| "Contains_range (cidr # rest) ip = (if cidr ip then True else Contains_range rest ip)"

definition CIDRWhitelist_Contains :: "'a CIDRWhitelist \<Rightarrow> 'a IP \<Rightarrow> bool" where
  "CIDRWhitelist_Contains c ip = Contains_range (whitelist c) ip"

text \<open>
  The loop of \<^verbatim>\<open>CIDRWhitelist.Resolve\<close> over its three variables \<^verbatim>\<open>proxy\<close>,
  \<^verbatim>\<open>remote\<close> and \<^verbatim>\<open>forwarded\<close>.
\<close>

function CIDRWhitelist_Resolve_loop ::
  "'a CIDRWhitelist \<Rightarrow> 'a IP \<Rightarrow> 'a IP \<Rightarrow> 'a IP list \<Rightarrow> 'a IP \<times> 'a IP \<times> 'a IP list" where
  "CIDRWhitelist_Resolve_loop c proxy remote forwarded =
     (if length forwarded > 0 then
        (if \<not> CIDRWhitelist_Contains c remote then (proxy, remote, forwarded)
         else CIDRWhitelist_Resolve_loop c remote (fst (pop forwarded)) (snd (pop forwarded)))
      else (proxy, remote, forwarded))"
  by pat_completeness auto
termination
  by (relation "measure (\<lambda>(c, proxy, remote, forwarded). length forwarded)")
     (auto simp: pop_def Let_def)

definition CIDRWhitelist_Resolve ::
  "'a CIDRWhitelist \<Rightarrow> 'a IP \<Rightarrow> 'a IP list \<Rightarrow> error + ('a IP \<times> 'a IP \<times> 'a IP list)" where
  "CIDRWhitelist_Resolve c remote forwarded =
     Inr (CIDRWhitelist_Resolve_loop c None remote forwarded)"

text \<open>
  \<^verbatim>\<open>OffsetIPExtractor.Resolve\<close>. An index expression panics when the index is negative or
  not below the length; the model checks each one where the source evaluates it. The final
  slice expression \<^verbatim>\<open>ips[:size-int(o)-2]\<close> has the bound that the index expression before it
  has just passed, so it cannot panic on its own.
\<close>

definition OffsetIPExtractor_Resolve ::
  "OffsetIPExtractor \<Rightarrow> 'a IP \<Rightarrow> 'a IP list \<Rightarrow> error + ('a IP \<times> 'a IP \<times> 'a IP list)" where
  "OffsetIPExtractor_Resolve off remote forwarded =
     (let ips = forwarded @ [remote];
          size = int (length ips)
      in if size \<le> int_of_uint off then Inl (Error ''mis-configured proxy chain'')
         else
           let i = int_sub (int_sub size (int_of_uint off)) 1
           in if i < 0 \<or> size \<le> i then Inl Panic_index_out_of_range
              else
                let proxy = ips ! nat i;
                    j = int_sub (int_sub size (int_of_uint off)) 2
                in if j < 0 \<or> size \<le> j then Inl Panic_index_out_of_range
                   else Inr (proxy, ips ! nat j, take (nat j) ips))"

text \<open>The interface \<^verbatim>\<open>IPExtractor\<close> with its two implementations.\<close>

datatype 'a IPExtractor =
    CIDR "'a CIDRWhitelist"
  | Offset OffsetIPExtractor

fun Resolve ::
  "'a IPExtractor \<Rightarrow> 'a IP \<Rightarrow> 'a IP list \<Rightarrow> error + ('a IP \<times> 'a IP \<times> 'a IP list)" where
  "Resolve (CIDR c) remote forwarded = CIDRWhitelist_Resolve c remote forwarded"
| "Resolve (Offset off) remote forwarded = OffsetIPExtractor_Resolve off remote forwarded"


section \<open>Strings and headers of the standard library\<close>

text \<open>
  \<^verbatim>\<open>strings.Split\<close> with a separator of one byte, \<^verbatim>\<open>strings.Join\<close>, and
  \<^verbatim>\<open>strings.ToLower\<close> on ASCII letters (every other byte is kept).
\<close>

fun strings_Split :: "string \<Rightarrow> char \<Rightarrow> string list" where
  "strings_Split [] sep = [[]]"
| "strings_Split (c # s) sep =
     (if c = sep then [] # strings_Split s sep
      else (case strings_Split s sep of
              [] \<Rightarrow> [[c]]
            | token # tokens \<Rightarrow> (c # token) # tokens))"

fun strings_Join :: "string list \<Rightarrow> string \<Rightarrow> string" where
  "strings_Join [] sep = []"
| "strings_Join [a] sep = a"
| "strings_Join (a # b # elems) sep = a @ sep @ strings_Join (b # elems) sep"

definition ToLower_char :: "char \<Rightarrow> char" where
  "ToLower_char c =
     (case map_of (zip ''ABCDEFGHIJKLMNOPQRSTUVWXYZ'' ''abcdefghijklmnopqrstuvwxyz'') c of
        None \<Rightarrow> c
      | Some l \<Rightarrow> l)"

definition strings_ToLower :: "string \<Rightarrow> string" where
  "strings_ToLower s = map ToLower_char s"

text \<open>
  An \<^verbatim>\<open>http.Header\<close> maps a header name to the list of its values. The methods
  canonicalise the name they are given; the names used here are written in one spelling
  throughout, which stands for the canonical one.
\<close>

type_synonym Header = "string \<Rightarrow> string list option"

definition Header_Values :: "Header \<Rightarrow> string \<Rightarrow> string list" where
  "Header_Values h key = (case h key of None \<Rightarrow> [] | Some vs \<Rightarrow> vs)"

definition Header_Get :: "Header \<Rightarrow> string \<Rightarrow> string" where
  "Header_Get h key = (case h key of None \<Rightarrow> [] | Some [] \<Rightarrow> [] | Some (v # vs) \<Rightarrow> v)"

definition Header_Set :: "Header \<Rightarrow> string \<Rightarrow> string \<Rightarrow> Header" where
  "Header_Set h key v = h(key \<mapsto> [v])"

definition Header_Del :: "Header \<Rightarrow> string \<Rightarrow> Header" where
  "Header_Del h key = h(key := None)"

section \<open>trustedproxy.go: the forwarded chain\<close>

text \<open>
  \<^verbatim>\<open>ExtractForwardedForIPs\<close>, with \<^verbatim>\<open>net.ParseIP\<close> as the parameter \<open>ParseIP\<close>. The inner
  loop runs over the tokens of one header value, the outer one over the header values;
  \<open>res\<close> is the slice being appended to.
\<close>

fun ExtractForwardedForIPs_vals :: "(string \<Rightarrow> 'a IP) \<Rightarrow> string list \<Rightarrow> 'a IP list \<Rightarrow> 'a IP list" where
  "ExtractForwardedForIPs_vals ParseIP [] res = res"
| "ExtractForwardedForIPs_vals ParseIP (val # vals) res =
     (let ip = ParseIP val
      in if ip = None then ExtractForwardedForIPs_vals ParseIP vals res
         else ExtractForwardedForIPs_vals ParseIP vals (res @ [ParseIP val]))"

fun ExtractForwardedForIPs_headers ::
  "(string \<Rightarrow> 'a IP) \<Rightarrow> string list \<Rightarrow> 'a IP list \<Rightarrow> 'a IP list" where
  "ExtractForwardedForIPs_headers ParseIP [] res = res"
| "ExtractForwardedForIPs_headers ParseIP (header # headers) res =
     ExtractForwardedForIPs_headers ParseIP headers
       (ExtractForwardedForIPs_vals ParseIP (strings_Split header CHR '','') res)"

definition ExtractForwardedForIPs :: "(string \<Rightarrow> 'a IP) \<Rightarrow> Header \<Rightarrow> 'a IP list" where
  "ExtractForwardedForIPs ParseIP h =
     ExtractForwardedForIPs_headers ParseIP (Header_Values h ''X-Forwarded-For'') []"

section \<open>request.go: the trusted view\<close>

text \<open>
  Of a \<^verbatim>\<open>url.URL\<close> and an \<^verbatim>\<open>http.Request\<close> the fields that the repository reads or
  writes, and a few more that it only copies. \<open>TLS\<close> says whether the field
  \<^verbatim>\<open>TLS\<close> is not \<^verbatim>\<open>nil\<close>. \<^verbatim>\<open>Clone\<close> is a deep copy, which on values is the identity.
\<close>

record URL =
  Scheme :: string
  URL_Host :: string
  Path :: string
  RawQuery :: string

record Request =
  Method :: string
  Host :: string
  URL :: URL
  RemoteAddr :: string
  Header :: Header
  TLS :: bool

text \<open>
  \<^verbatim>\<open>forwardedRequest\<close>. The embedded \<^verbatim>\<open>*http.Request\<close> is the field \<open>Request\<close>; the
  pointers \<^verbatim>\<open>trustedURL\<close> and \<^verbatim>\<open>trustedRequest\<close> are options with \<open>None\<close> for
  \<^verbatim>\<open>nil\<close>. A method that writes a field returns the record after the call next to its
  result.
\<close>

record 'a forwardedRequest =
  Request :: Request
  proxyIP :: "'a IP"
  trustedHost :: string
  trustedProto :: string
  trustedRemoteAddr :: "'a IP"
  trustedForwardedFor :: "'a IP list"
  trustedURL :: "URL option"
  trustedRequest :: "Request option"

definition GetOriginalRequest :: "'a forwardedRequest \<Rightarrow> Request" where
  "GetOriginalRequest f = Request f"

definition IsBehindProxy :: "'a forwardedRequest \<Rightarrow> bool" where
  "IsBehindProxy f = (proxyIP f \<noteq> None)"

definition GetProxyIP :: "'a forwardedRequest \<Rightarrow> 'a IP" where
  "GetProxyIP f = proxyIP f"

definition GetTrustedHost :: "'a forwardedRequest \<Rightarrow> string \<times> 'a forwardedRequest" where
  "GetTrustedHost f =
     (if trustedHost f \<noteq> [] then (trustedHost f, f)
      else if proxyIP f = None then (Host (Request f), f\<lparr>trustedHost := Host (Request f)\<rparr>)
      else
        let xHost = Header_Get (Header (Request f)) ''X-Forwarded-Host''
        in if xHost \<noteq> [] then (xHost, f\<lparr>trustedHost := xHost\<rparr>)
           else (Host (Request f), f\<lparr>trustedHost := Host (Request f)\<rparr>))"

definition GetTrustedProto :: "'a forwardedRequest \<Rightarrow> string \<times> 'a forwardedRequest" where
  "GetTrustedProto f =
     (if trustedProto f \<noteq> [] then (trustedProto f, f)
      else if proxyIP f = None then
        (if TLS (Request f) then (''https'', f\<lparr>trustedProto := ''https''\<rparr>)
         else (''http'', f\<lparr>trustedProto := ''http''\<rparr>))
      else
        let xProto = Header_Get (Header (Request f)) ''X-Forwarded-Proto'';
            lower = strings_ToLower xProto
        in if lower = ''http'' \<or> lower = ''ws'' then (''http'', f\<lparr>trustedProto := ''http''\<rparr>)
           else if lower = ''https'' \<or> lower = ''wss'' then
             (''https'', f\<lparr>trustedProto := ''https''\<rparr>)
           else if TLS (Request f) then (''https'', f\<lparr>trustedProto := ''https''\<rparr>)
           else (''http'', f\<lparr>trustedProto := ''http''\<rparr>))"

definition GetTrustedRemoteAddr :: "'a forwardedRequest \<Rightarrow> 'a IP" where
  "GetTrustedRemoteAddr f = trustedRemoteAddr f"

definition GetTrustedForwardedFor :: "'a forwardedRequest \<Rightarrow> 'a IP list" where
  "GetTrustedForwardedFor f = trustedForwardedFor f"

text \<open>
  \<^verbatim>\<open>GetTrustedURL\<close>. The parameter \<open>reparse\<close> is \<^verbatim>\<open>url.Parse\<close> after
  \<^verbatim>\<open>URL.String\<close>, with \<open>None\<close> when parsing fails: the source drops the error, so that the
  pointer is \<^verbatim>\<open>nil\<close> and the assignment to its field panics.
\<close>

definition GetTrustedURL ::
  "(URL \<Rightarrow> URL option) \<Rightarrow> 'a forwardedRequest \<Rightarrow> error + (URL \<times> 'a forwardedRequest)" where
  "GetTrustedURL reparse f =
     (case trustedURL f of
        Some cached \<Rightarrow> Inr (cached, f)
      | None \<Rightarrow>
          (case reparse (URL (Request f)) of
             None \<Rightarrow> Inl Panic_nil_dereference
           | Some u \<Rightarrow>
               let (host, f1) = GetTrustedHost f;
                   (proto, f2) = GetTrustedProto f1;
                   u' = u\<lparr>URL_Host := host, Scheme := proto\<rparr>
               in Inr (u', f2\<lparr>trustedURL := Some u'\<rparr>)))"

text \<open>
  \<^verbatim>\<open>GetTrustedRequest\<close>, with \<^verbatim>\<open>IP.String\<close> as the parameter \<open>String\<close> (it is defined on
  \<^verbatim>\<open>nil\<close> too). The source stores the pointer to the clone first and fills the clone
  through it; nothing in between reads the field, so the model stores the finished clone.
\<close>

definition GetTrustedRequest ::
  "(URL \<Rightarrow> URL option) \<Rightarrow> ('a IP \<Rightarrow> string) \<Rightarrow> 'a forwardedRequest
     \<Rightarrow> error + (Request \<times> 'a forwardedRequest)" where
  "GetTrustedRequest reparse String f =
     (case trustedRequest f of
        Some cached \<Rightarrow> Inr (cached, f)
      | None \<Rightarrow>
          let clone = Request f;
              (host, f1) = GetTrustedHost f
          in (case GetTrustedURL reparse f1 of
                Inl e \<Rightarrow> Inl e
              | Inr (u, f2) \<Rightarrow>
                  let r = clone\<lparr>Host := host, URL := u,
                                RemoteAddr := String (GetTrustedRemoteAddr f2)\<rparr>;
                      r' = (if length (trustedForwardedFor f2) > 0 then
                              r\<lparr>Header := Header_Set (Header r) ''X-Forwarded-For''
                                   (String (trustedForwardedFor f2 ! 0))\<rparr>
                            else
                              r\<lparr>Header := Header_Del (Header_Del (Header_Del (Header r)
                                   ''X-Forwarded-For'') ''X-Forwarded-Host'') ''X-Forwarded-Proto''\<rparr>)
                  in Inr (r', f2\<lparr>trustedRequest := Some r'\<rparr>)))"

text \<open>\<^verbatim>\<open>BuildRequestForForward\<close>; the loop that appends each string form is a \<open>map\<close>.\<close>

definition BuildRequestForForward ::
  "(URL \<Rightarrow> URL option) \<Rightarrow> ('a IP \<Rightarrow> string) \<Rightarrow> 'a forwardedRequest \<Rightarrow> bool
     \<Rightarrow> error + (Request \<times> 'a forwardedRequest)" where
  "BuildRequestForForward reparse String f stripForwardedIPs =
     (let req = Request f;
          (host, f1) = GetTrustedHost f
      in (case GetTrustedURL reparse f1 of
            Inl e \<Rightarrow> Inl e
          | Inr (u, f2) \<Rightarrow>
              let h0 = Header_Del (Header_Del (Header_Del (Header_Del (Header req)
                         ''X-Forwarded-For'') ''X-Forwarded-Host'') ''X-Forwarded-Proto'')
                         ''X-Real-IP'';
                  ips = (if \<not> stripForwardedIPs then map String (GetTrustedForwardedFor f2)
                         else []);
                  ips' = ips @ [String (GetTrustedRemoteAddr f2)];
                  h1 = Header_Set h0 ''X-Forwarded-For'' (strings_Join ips' '', '');
                  (host', f3) = GetTrustedHost f2;
                  h2 = Header_Set h1 ''X-Forwarded-Host'' host';
                  (proto, f4) = GetTrustedProto f3;
                  h3 = Header_Set h2 ''X-Forwarded-Proto'' proto
              in Inr (req\<lparr>Host := host, URL := u, Header := h3\<rparr>, f4)))"

section \<open>trustedproxy.go and http.go: the middleware\<close>

text \<open>
  What a middleware does with a request: it answers with \<^verbatim>\<open>http.Error\<close> (status and
  body) and returns, or it calls the next handler with the view and the request, or it
  panics.
\<close>

datatype 'a outcome =
    Responded nat string
  | Next "'a forwardedRequest" Request
  | Panicked error

definition new_forwardedRequest :: "Request \<Rightarrow> 'a forwardedRequest" where
  "new_forwardedRequest r =
     \<lparr>Request = r, proxyIP = None, trustedHost = [], trustedProto = [],
      trustedRemoteAddr = None, trustedForwardedFor = [], trustedURL = None,
      trustedRequest = None\<rparr>"

definition StatusInternalServerError :: nat where
  "StatusInternalServerError = 500"

definition resolved ::
  "'a forwardedRequest \<Rightarrow> Request \<Rightarrow> error + ('a IP \<times> 'a IP \<times> 'a IP list) \<Rightarrow> 'a outcome" where
  "resolved fr r res =
     (case res of
        Inl (Error msg) \<Rightarrow> Responded StatusInternalServerError msg
      | Inl Panic_index_out_of_range \<Rightarrow> Panicked Panic_index_out_of_range
      | Inl Panic_nil_dereference \<Rightarrow> Panicked Panic_nil_dereference
      | Inr (proxy, trustedRemote, restIps) \<Rightarrow>
          Next (fr\<lparr>proxyIP := proxy, trustedRemoteAddr := trustedRemote,
                   trustedForwardedFor := restIps\<rparr>) r)"

text \<open>
  \<^verbatim>\<open>WithTrustedProxyContext\<close> of trustedproxy.go: the remote address goes through
  \<^verbatim>\<open>net.ParseIP\<close> and from there to the resolver, whatever it is.
\<close>

definition WithTrustedProxyContext ::
  "(string \<Rightarrow> 'a IP) \<Rightarrow> 'a IPExtractor \<Rightarrow> Request \<Rightarrow> 'a outcome" where
  "WithTrustedProxyContext ParseIP resolver r =
     (let fr = new_forwardedRequest r;
          ips = ExtractForwardedForIPs ParseIP (Header r)
      in resolved fr r (Resolve resolver (ParseIP (RemoteAddr r)) ips))"

text \<open>
  \<^verbatim>\<open>HTTPHandler.SetTrustedProxyContext\<close> of http.go: \<^verbatim>\<open>net.ResolveTCPAddr\<close> is the
  parameter \<open>ResolveTCPAddr\<close>, which gives the message of its error or the field
  \<^verbatim>\<open>IP\<close> of the address it returns.
\<close>

definition SetTrustedProxyContext ::
  "(string \<Rightarrow> 'a IP) \<Rightarrow> (string \<Rightarrow> string + 'a IP) \<Rightarrow> 'a IPExtractor \<Rightarrow> Request \<Rightarrow> 'a outcome" where
  "SetTrustedProxyContext ParseIP ResolveTCPAddr Extractor r =
     (let fr = new_forwardedRequest r;
          ips = ExtractForwardedForIPs ParseIP (Header r)
      in (case ResolveTCPAddr (RemoteAddr r) of
            Inl err \<Rightarrow> Responded StatusInternalServerError err
          | Inr raddr_IP \<Rightarrow> resolved fr r (Resolve Extractor raddr_IP ips)))"

section \<open>The specification's wording, for comparison with the code\<close>

text \<open>
  The walk of the whitelist resolver as the specification words it: the candidate starts
  as the socket peer; while it lies in some prefix of the whitelist and the chain has
  entries, it becomes the proxy and the rightmost entry of the chain the new candidate.
  The chain is given rightmost entry first.
\<close>

fun trust_walk ::
  "'a IPNet list \<Rightarrow> 'a IP \<Rightarrow> 'a IP \<Rightarrow> 'a IP list \<Rightarrow> 'a IP \<times> 'a IP \<times> 'a IP list" where
  "trust_walk W proxy candidate [] = (proxy, candidate, [])"
| "trust_walk W proxy candidate (rightmost # older) =
     (if \<exists>prefix \<in> set W. prefix candidate then trust_walk W candidate rightmost older
      else (proxy, candidate, rev (rightmost # older)))"


text \<open>
  The extraction as the specification words it: every token is trimmed before it is
  parsed. \<open>strings_TrimSpace\<close> removes the ASCII white space at both ends.
\<close>

definition isSpace :: "char \<Rightarrow> bool" where
  "isSpace c = (c \<in> set [CHR '' '', CHR 0x09, CHR 0x0A, CHR 0x0B, CHR 0x0C, CHR 0x0D])"

definition strings_TrimSpace :: "string \<Rightarrow> string" where
  "strings_TrimSpace s = rev (dropWhile isSpace (rev (dropWhile isSpace s)))"

definition spec_ExtractForwardedForIPs :: "(string \<Rightarrow> 'a IP) \<Rightarrow> Header \<Rightarrow> 'a IP list" where
  "spec_ExtractForwardedForIPs ParseIP h =
     concat (map (\<lambda>header.
         filter (\<lambda>ip. ip \<noteq> None)
           (map (\<lambda>token. ParseIP (strings_TrimSpace token)) (strings_Split header CHR '','')))
       (Header_Values h ''X-Forwarded-For''))"

text \<open>The protocol that the connection itself has.\<close>

definition TLS_proto :: "Request \<Rightarrow> string" where
  "TLS_proto r = (if TLS r then ''https'' else ''http'')"

text \<open>
  The trusted protocol as the specification words it: not behind a proxy, the protocol of
  the connection; behind a proxy, http for a header value that is \<open>http\<close> or \<open>ws\<close>
  in any letter case, https for \<open>https\<close> or \<open>wss\<close>, and the protocol of the connection
  for any other or missing value.
\<close>

definition spec_TrustedProto :: "'a forwardedRequest \<Rightarrow> string" where
  "spec_TrustedProto f =
     (if proxyIP f = None then TLS_proto (Request f)
      else if strings_ToLower (Header_Get (Header (Request f)) ''X-Forwarded-Proto'')
                \<in> {''http'', ''ws''} then ''http''
      else if strings_ToLower (Header_Get (Header (Request f)) ''X-Forwarded-Proto'')
                \<in> {''https'', ''wss''} then ''https''
      else TLS_proto (Request f))"

section \<open>IPv4 addresses in dotted decimal, for the examples\<close>

text \<open>
  The theorems below hold for every address type and every behaviour of the library
  functions they take as parameters. The examples need values: an address is the list of
  its four octets, a network a list of leading octets, and \<^verbatim>\<open>net.ParseIP\<close> and
  \<^verbatim>\<open>IP.String\<close> are those of the Go distribution on the dotted decimal form of IPv4
  (\<^verbatim>\<open>parseIPv4Fields\<close> of net/netip: decimal octets up to 255 without a leading zero,
  exactly three dots, no other character). A text whose first \<^verbatim>\<open>.\<close>, \<^verbatim>\<open>:\<close> or
  \<^verbatim>\<open>%\<close> is not a dot is outside this form and gets \<^verbatim>\<open>nil\<close> here.
\<close>

definition IPv4Net :: "nat list \<Rightarrow> nat list IPNet" where
  "IPv4Net octets ip =
     (case ip of
        None \<Rightarrow> False
      | Some a \<Rightarrow> length a = 4 \<and> take (length octets) a = octets)"

fun parseIPv4Fields :: "string \<Rightarrow> nat \<Rightarrow> nat \<Rightarrow> nat list \<Rightarrow> nat list IP" where
  "parseIPv4Fields [] val digLen flds =
     (if length flds < 3 then None else Some (flds @ [val]))"
| "parseIPv4Fields (c # s) val digLen flds =
     (if c \<in> set ''0123456789'' then
        (if digLen = 1 \<and> val = 0 then None
         else
           let val' = val * 10 + (of_char c - 48)
           in if val' > 255 then None else parseIPv4Fields s val' (digLen + 1) flds)
      else if c = CHR ''.'' then
        (if digLen = 0 \<or> s = [] then None
         else if length flds = 3 then None
         else parseIPv4Fields s 0 0 (flds @ [val]))
      else None)"

definition ParseIP_dotted :: "string \<Rightarrow> nat list IP" where
  "ParseIP_dotted s =
     (case find (\<lambda>c. c = CHR ''.'' \<or> c = CHR '':'' \<or> c = CHR ''%'') s of
        None \<Rightarrow> None
      | Some c \<Rightarrow> if c = CHR ''.'' then parseIPv4Fields s 0 0 [] else None)"

fun strconv_Itoa :: "nat \<Rightarrow> string" where
  "strconv_Itoa n =
     (if n < 10 then [''0123456789'' ! n]
      else strconv_Itoa (n div 10) @ [''0123456789'' ! (n mod 10)])"

definition String_dotted :: "nat list IP \<Rightarrow> string" where
  "String_dotted ip =
     (case ip of
        None \<Rightarrow> ''<nil>''
      | Some [a, b, c, d] \<Rightarrow>
          strconv_Itoa a @ ''.'' @ strconv_Itoa b @ ''.'' @ strconv_Itoa c @ ''.'' @ strconv_Itoa d
      | Some other \<Rightarrow> ''?'')"

text \<open>A request for the examples: its host, remote address, headers and TLS state.\<close>

definition example_request :: "string \<Rightarrow> string \<Rightarrow> Header \<Rightarrow> bool \<Rightarrow> Request" where
  "example_request host addr h tls =
     \<lparr>Method = ''GET'', Host = host,
      URL = \<lparr>Scheme = [], URL_Host = [], Path = ''/index'', RawQuery = []\<rparr>,
      RemoteAddr = addr, Header = h, TLS = tls\<rparr>"

text \<open>
  A view behind the proxy \<open>10.0.0.1\<close> with the trusted remote address \<open>1.2.3.4\<close> and a
  given residual chain, on a request over a plain connection that carries forwarding
  headers.
\<close>

definition example_header :: Header where
  "example_header =
     [''X-Forwarded-Host'' \<mapsto> [''shop.example''], ''X-Forwarded-Proto'' \<mapsto> [''WsS''],
      ''X-Real-IP'' \<mapsto> [''9.9.9.9''], ''Accept'' \<mapsto> [''text/html'']]"

definition example_view :: "nat list IP list \<Rightarrow> nat list forwardedRequest" where
  "example_view rest =
     (new_forwardedRequest (example_request ''origin.example'' ''10.0.0.1:4711'' example_header False))
       \<lparr>proxyIP := Some [10, 0, 0, 1], trustedRemoteAddr := Some [1, 2, 3, 4],
        trustedForwardedFor := rest\<rparr>"

text \<open>
  \<^verbatim>\<open>url.Parse\<close> after \<^verbatim>\<open>URL.String\<close> on the URL of a request line, which has a path and
  neither scheme nor host. Its string form is its path. A string that starts with two
  slashes, and not with three, is read back as an authority up to the next slash and the
  path from there; \<^verbatim>\<open>parseHost\<close> of net/url rejects an authority in which the last colon
  is followed by anything but decimal digits (\<^verbatim>\<open>validOptionalPort\<close>), and then
  \<^verbatim>\<open>url.Parse\<close> returns an error and no URL. Every other URL of this kind is read back as
  it is. User information, brackets, escapes and the query are outside this form.
\<close>

definition validOptionalPort :: "string \<Rightarrow> bool" where
  "validOptionalPort port =
     (if port = [] then True
      else if hd port \<noteq> CHR '':'' then False
      else list_all (\<lambda>b. b \<in> set ''0123456789'') (tl port))"

definition url_Parse_String :: "URL \<Rightarrow> URL option" where
  "url_Parse_String u =
     (if Scheme u = [] \<and> URL_Host u = [] \<and> take 2 (Path u) = ''//''
         \<and> take 3 (Path u) \<noteq> ''///'' then
        (let rest = drop 2 (Path u);
             authority = takeWhile (\<lambda>c. c \<noteq> CHR ''/'') rest;
             colonPort = (if CHR '':'' \<in> set authority then
                            CHR '':'' # rev (takeWhile (\<lambda>c. c \<noteq> CHR '':'') (rev authority))
                          else [])
         in if validOptionalPort colonPort then
              Some (u\<lparr>URL_Host := authority, Path := dropWhile (\<lambda>c. c \<noteq> CHR ''/'') rest\<rparr>)
            else None)
      else Some u)"

text \<open>
  The request of the request line \<^verbatim>\<open>GET //a:b HTTP/1.1\<close> from the peer \<open>1.2.3.4\<close>, which
  the server parses to the path \<^verbatim>\<open>//a:b\<close>, and the view of it that resolution leaves for
  a peer that is no proxy.
\<close>

definition double_slash_request :: Request where
  "double_slash_request =
     (example_request ''origin.example'' ''1.2.3.4:4711'' Map.empty False)
       \<lparr>URL := \<lparr>Scheme = [], URL_Host = [], Path = ''//a:b'', RawQuery = []\<rparr>\<rparr>"

definition double_slash_view :: "nat list forwardedRequest" where
  "double_slash_view =
     (new_forwardedRequest double_slash_request)\<lparr>trustedRemoteAddr := Some [1, 2, 3, 4]\<rparr>"

section \<open>Go's integers without overflow\<close>

declare CIDRWhitelist_Resolve_loop.simps [simp del]

declare strconv_Itoa.simps [simp del]

lemma wrap_int_id: "- (2 ^ 63) \<le> x \<Longrightarrow> x < 2 ^ 63 \<Longrightarrow> wrap_int x = x"
  by (simp add: wrap_int_def)



lemma int_of_uint_small: "int n < 2 ^ 63 \<Longrightarrow> int_of_uint n = int n"
  unfolding int_of_uint_def by (rule wrap_int_id) simp_all


section \<open>The fixed-offset resolver\<close>

text \<open>
  C7. With offset \<open>N\<close> and a combined chain (the forwarded chain followed by the remote
  address) of length \<open>size \<ge> N + 2\<close>, \<^verbatim>\<open>Resolve\<close> returns the element at index
  \<open>size - N - 1\<close> as proxy address, the element at index \<open>size - N - 2\<close> as trusted
  remote address and the elements before that index as residual chain. The length of a
  Go slice fits an \<^verbatim>\<open>int\<close>, which is the second assumption.
\<close>

theorem offset_resolve_partition:
  assumes "N + 2 \<le> length (forwarded @ [remote])"
    and "int (length (forwarded @ [remote])) < 2 ^ 63"
  shows "OffsetIPExtractor_Resolve N remote forwarded =
     Inr ((forwarded @ [remote]) ! (length (forwarded @ [remote]) - N - 1),
          (forwarded @ [remote]) ! (length (forwarded @ [remote]) - N - 2),
          take (length (forwarded @ [remote]) - N - 2) (forwarded @ [remote]))"
proof -
  define ips where "ips = forwarded @ [remote]"
  define size where "size = int (length ips)"
  have N: "int N + 2 \<le> size" and sz: "size < 2 ^ 63"
    using assms by (simp_all add: ips_def size_def)
  have cN: "int_of_uint N = int N"
    by (rule int_of_uint_small) (use N sz in linarith)
  have s0: "int_sub size (int N) = size - int N"
    unfolding int_sub_def by (rule wrap_int_id) (use N sz in linarith)+
  have s1: "int_sub (size - int N) 1 = size - int N - 1"
    unfolding int_sub_def by (rule wrap_int_id) (use N sz in linarith)+
  have s2: "int_sub (size - int N) 2 = size - int N - 2"
    unfolding int_sub_def by (rule wrap_int_id) (use N sz in linarith)+
  have n1: "nat (size - int N - 1) = length ips - N - 1"
    and n2: "nat (size - int N - 2) = length ips - N - 2"
    using N by (simp_all add: size_def)
  have "OffsetIPExtractor_Resolve N remote forwarded =
     Inr (ips ! (length ips - N - 1), ips ! (length ips - N - 2), take (length ips - N - 2) ips)"
    unfolding OffsetIPExtractor_Resolve_def Let_def ips_def [symmetric] size_def [symmetric]
      cN s0 s1 s2 n1 n2
    using N by simp
  then show ?thesis by (simp only: ips_def)
qed

theorem offset_resolve_partition_witness:
  "(0::nat) + 2 \<le> length ([Some [1, 2, 3, 4], Some [5, 6, 7, 8]] @ [Some [10, 0, 0, 1 :: nat]]) \<and>
   int (length ([Some [1, 2, 3, 4], Some [5, 6, 7, 8]] @ [Some [10, 0, 0, 1 :: nat]])) < 2 ^ 63 \<and>
   OffsetIPExtractor_Resolve 0 (Some [10, 0, 0, 1 :: nat]) [Some [1, 2, 3, 4], Some [5, 6, 7, 8]]
     = Inr (Some [10, 0, 0, 1], Some [5, 6, 7, 8], [Some [1, 2, 3, 4]])"
  using offset_resolve_partition [of 0 "[Some [1, 2, 3, 4], Some [5, 6, 7, 8]]"
      "Some [10, 0, 0, 1 :: nat]"]
  by simp

text \<open>
  C1. A combined chain of length \<open>size < N + 2\<close> is to give the configuration error.
  The guard of the code is \<open>size \<le> N\<close>: at \<open>size = N + 1\<close> it lets the call through
  and the index \<open>size - N - 2 = -1\<close> panics. The smallest case is a direct connection
  (no forwarded address) under offset 0.
\<close>

theorem offset_resolve_boundary_panics:
  "OffsetIPExtractor_Resolve 0 remote [] = Inl Panic_index_out_of_range"
  by (simp add: OffsetIPExtractor_Resolve_def int_of_uint_def int_sub_def wrap_int_def)

text \<open>The same at every offset, and the error where the guard does hold.\<close>

lemma offset_resolve_boundary:
  assumes "length forwarded = N" and "int N + 1 < 2 ^ 63"
  shows "OffsetIPExtractor_Resolve N remote forwarded = Inl Panic_index_out_of_range"
proof -
  have cN: "int_of_uint N = int N"
    by (rule int_of_uint_small) (use assms in linarith)
  have s0: "int_sub (1 + int N) (int N) = 1"
    unfolding int_sub_def by (simp add: wrap_int_def)
  have s1: "int_sub 1 1 = 0" and s2: "int_sub 1 2 = - 1"
    by (simp_all add: int_sub_def wrap_int_def)
  show ?thesis
    unfolding OffsetIPExtractor_Resolve_def Let_def
    by (simp add: assms(1) cN s0 s1 s2)
qed

text \<open>
  An offset beyond the largest \<^verbatim>\<open>int\<close> converts to a negative number, passes the guard
  and panics as well; here the largest \<^verbatim>\<open>uint\<close>.
\<close>

lemma offset_resolve_max_uint:
  "OffsetIPExtractor_Resolve 18446744073709551615 remote [] = Inl Panic_index_out_of_range"
  by (simp add: OffsetIPExtractor_Resolve_def int_of_uint_def int_sub_def wrap_int_def)

lemma offset_resolve_short:
  assumes "length forwarded < N" and "int N < 2 ^ 63"
  shows "OffsetIPExtractor_Resolve N remote forwarded = Inl (Error ''mis-configured proxy chain'')"
  using assms by (simp add: OffsetIPExtractor_Resolve_def int_of_uint_small)

section \<open>The whitelist resolver\<close>

lemma Contains_range_iff: "Contains_range W ip \<longleftrightarrow> (\<exists>prefix \<in> set W. prefix ip)"
  by (induction W) auto

lemma pop_snoc: "pop (xs @ [x]) = (x, xs)"
  by (simp add: pop_def)

lemma loop_Nil: "CIDRWhitelist_Resolve_loop c proxy remote [] = (proxy, remote, [])"
  by (simp add: CIDRWhitelist_Resolve_loop.simps)

lemma loop_snoc:
  "CIDRWhitelist_Resolve_loop c proxy remote (xs @ [x]) =
     (if CIDRWhitelist_Contains c remote then CIDRWhitelist_Resolve_loop c remote x xs
      else (proxy, remote, xs @ [x]))"
  by (subst CIDRWhitelist_Resolve_loop.simps) (simp add: pop_snoc)

lemma loop_walk:
  "CIDRWhitelist_Resolve_loop c proxy remote C = trust_walk (whitelist c) proxy remote (rev C)"
proof (induction C arbitrary: proxy remote rule: rev_induct)
  case Nil
  show ?case by (simp add: loop_Nil)
next
  case (snoc x xs)
  show ?case
    by (auto simp: loop_snoc snoc.IH CIDRWhitelist_Contains_def Contains_range_iff)
qed


text \<open>
  C6. For every whitelist, socket peer and forwarded chain, \<^verbatim>\<open>CIDRWhitelist.Resolve\<close>
  returns no error and the partition of the walk that the specification describes. In
  particular, when the socket peer lies in no prefix of the whitelist, the proxy address is
  absent, the trusted remote address is the socket peer and the residual chain is the
  forwarded chain unchanged.
\<close>

theorem cidr_resolve_walk:
  "CIDRWhitelist_Resolve c remote C = Inr (trust_walk (whitelist c) None remote (rev C)) \<and>
   (\<not> (\<exists>prefix \<in> set (whitelist c). prefix remote) \<longrightarrow>
      CIDRWhitelist_Resolve c remote C = Inr (None, remote, C))"
proof -
  have walk: "CIDRWhitelist_Resolve c remote C = Inr (trust_walk (whitelist c) None remote (rev C))"
    by (simp add: CIDRWhitelist_Resolve_def loop_walk)
  have "trust_walk (whitelist c) None remote (rev C) = (None, remote, C)"
    if "\<not> (\<exists>prefix \<in> set (whitelist c). prefix remote)"
    using that by (cases C rule: rev_cases) auto
  with walk show ?thesis by simp
qed

theorem cidr_resolve_walk_witness:
  "CIDRWhitelist_Resolve \<lparr>whitelist = [IPv4Net [10]]\<rparr> (Some [10, 0, 0, 1])
      [Some [1, 2, 3, 4], Some [10, 0, 0, 2]] = Inr (Some [10, 0, 0, 2], Some [1, 2, 3, 4], []) \<and>
   CIDRWhitelist_Resolve \<lparr>whitelist = [IPv4Net [10]]\<rparr> (Some [1, 2, 3, 4])
      [Some [5, 6, 7, 8], Some [10, 0, 0, 2]]
     = Inr (None, Some [1, 2, 3, 4], [Some [5, 6, 7, 8], Some [10, 0, 0, 2]])"
  using cidr_resolve_walk [of "\<lparr>whitelist = [IPv4Net [10]]\<rparr>" "Some [10, 0, 0, 1]"
      "[Some [1, 2, 3, 4], Some [10, 0, 0, 2]]"]
    cidr_resolve_walk [of "\<lparr>whitelist = [IPv4Net [10]]\<rparr>" "Some [1, 2, 3, 4]"
      "[Some [5, 6, 7, 8], Some [10, 0, 0, 2]]"]
  by (simp add: IPv4Net_def)

section \<open>The residual chain\<close>




section \<open>Extraction of the forwarded chain\<close>

lemma ExtractForwardedForIPs_vals_eq:
  "ExtractForwardedForIPs_vals ParseIP vals res
     = res @ filter (\<lambda>ip. ip \<noteq> None) (map ParseIP vals)"
  by (induction vals arbitrary: res) (simp_all add: Let_def)

lemma ExtractForwardedForIPs_headers_eq:
  "ExtractForwardedForIPs_headers ParseIP headers res
     = res @ concat (map (\<lambda>header.
         filter (\<lambda>ip. ip \<noteq> None) (map ParseIP (strings_Split header CHR '',''))) headers)"
  by (induction headers arbitrary: res) (simp_all add: ExtractForwardedForIPs_vals_eq)

text \<open>
  What the code computes: the tokens between the commas go to the parser as they are, the
  ones it rejects are dropped, the rest is concatenated in order.
\<close>

lemma ExtractForwardedForIPs_eq:
  "ExtractForwardedForIPs ParseIP h =
     concat (map (\<lambda>header.
         filter (\<lambda>ip. ip \<noteq> None) (map ParseIP (strings_Split header CHR '','')))
       (Header_Values h ''X-Forwarded-For''))"
  by (simp add: ExtractForwardedForIPs_def ExtractForwardedForIPs_headers_eq)

text \<open>It is the extraction of the specification for a parser that ignores white space.\<close>

lemma ExtractForwardedForIPs_spec:
  assumes "\<And>s. ParseIP (strings_TrimSpace s) = ParseIP s"
  shows "ExtractForwardedForIPs ParseIP h = spec_ExtractForwardedForIPs ParseIP h"
  by (simp add: ExtractForwardedForIPs_eq spec_ExtractForwardedForIPs_def assms)

text \<open>
  C3. Every token is to be trimmed before it is parsed, so that the second address of
  \<open>1.2.3.4, 5.6.7.8\<close> is part of the chain. The code parses the token with its leading
  space, \<^verbatim>\<open>net.ParseIP\<close> rejects it, and the address is dropped: the code returns one
  address where the extraction of the specification returns two.
\<close>

theorem extract_drops_token_after_space:
  "ExtractForwardedForIPs ParseIP_dotted [''X-Forwarded-For'' \<mapsto> [''1.2.3.4, 5.6.7.8'']]
     = [Some [1, 2, 3, 4]] \<and>
   spec_ExtractForwardedForIPs ParseIP_dotted [''X-Forwarded-For'' \<mapsto> [''1.2.3.4, 5.6.7.8'']]
     = [Some [1, 2, 3, 4], Some [5, 6, 7, 8]]"
  by (simp add: ExtractForwardedForIPs_def spec_ExtractForwardedForIPs_def Header_Values_def
      ParseIP_dotted_def strings_TrimSpace_def isSpace_def)

section \<open>The remote address in the middleware\<close>

text \<open>
  In http.go an error of \<^verbatim>\<open>net.ResolveTCPAddr\<close> ends the request with the error
  response, before the resolver and the next handler.
\<close>

lemma SetTrustedProxyContext_unparseable:
  "ResolveTCPAddr (RemoteAddr r) = Inl err \<Longrightarrow>
     SetTrustedProxyContext ParseIP ResolveTCPAddr Extractor r
       = Responded StatusInternalServerError err"
  by (simp add: SetTrustedProxyContext_def)

text \<open>
  In trustedproxy.go a remote address that \<^verbatim>\<open>net.ParseIP\<close> rejects is \<^verbatim>\<open>nil\<close>, goes to
  the resolver, and the outcome is the resolver's.
\<close>

lemma WithTrustedProxyContext_unparseable:
  "ParseIP (RemoteAddr r) = None \<Longrightarrow>
     WithTrustedProxyContext ParseIP resolver r
       = resolved (new_forwardedRequest r) r
           (Resolve resolver None (ExtractForwardedForIPs ParseIP (Header r)))"
  by (simp add: WithTrustedProxyContext_def)

text \<open>
  C4. A remote address that cannot be parsed is to end the request with an error before
  any handler runs, in every entry point. \<^verbatim>\<open>WithTrustedProxyContext\<close> of trustedproxy.go
  parses the remote address, host and port together, as an IP address: the result is
  \<^verbatim>\<open>nil\<close>, the whitelist resolver accepts it without an error, and the next handler
  runs with a view whose trusted remote address is \<^verbatim>\<open>nil\<close>.
\<close>

theorem unparsed_remote_reaches_handler:
  "ParseIP_dotted ''10.0.0.1:4711'' = None \<and>
   WithTrustedProxyContext ParseIP_dotted (CIDR \<lparr>whitelist = [IPv4Net [10]]\<rparr>)
       (example_request ''origin.example'' ''10.0.0.1:4711'' Map.empty False)
     = Next \<lparr>Request = example_request ''origin.example'' ''10.0.0.1:4711'' Map.empty False,
             proxyIP = None, trustedHost = [], trustedProto = [], trustedRemoteAddr = None,
             trustedForwardedFor = [], trustedURL = None, trustedRequest = None\<rparr>
          (example_request ''origin.example'' ''10.0.0.1:4711'' Map.empty False)"
  by (simp add: WithTrustedProxyContext_def ParseIP_dotted_def ExtractForwardedForIPs_def
      Header_Values_def example_request_def new_forwardedRequest_def resolved_def
      CIDRWhitelist_Resolve_def CIDRWhitelist_Resolve_loop.simps)

section \<open>The accessors of the trusted view\<close>

text \<open>
  The state after \<^verbatim>\<open>GetTrustedHost\<close> and \<^verbatim>\<open>GetTrustedProto\<close> is the state before with
  the result stored; a stored protocol is never empty, a stored host can be.
\<close>

lemma GetTrustedHost_state:
  "snd (GetTrustedHost f) = f\<lparr>trustedHost := fst (GetTrustedHost f)\<rparr>"
  by (simp add: GetTrustedHost_def Let_def)

lemma GetTrustedProto_state:
  "snd (GetTrustedProto f) = f\<lparr>trustedProto := fst (GetTrustedProto f)\<rparr>"
  by (simp add: GetTrustedProto_def Let_def)

lemma GetTrustedProto_nonempty: "fst (GetTrustedProto f) \<noteq> []"
  by (simp add: GetTrustedProto_def Let_def)

lemma GetTrustedHost_cached:
  "trustedHost f \<noteq> [] \<Longrightarrow> GetTrustedHost f = (trustedHost f, f)"
  by (simp add: GetTrustedHost_def)

lemma GetTrustedProto_cached:
  "trustedProto f \<noteq> [] \<Longrightarrow> GetTrustedProto f = (trustedProto f, f)"
  by (simp add: GetTrustedProto_def)

lemma GetTrustedHost_again:
  assumes "GetTrustedHost f = (h, f1)"
  shows "GetTrustedHost f1 = (h, f1)"
proof -
  have h: "h = fst (GetTrustedHost f)" and f1: "f1 = f\<lparr>trustedHost := h\<rparr>"
    using assms GetTrustedHost_state [of f] by simp_all
  show ?thesis
  proof (cases "h = []")
    case False
    then show ?thesis by (simp add: f1 GetTrustedHost_cached)
  next
    case True
    with h have "trustedHost f = []"
      by (auto simp: GetTrustedHost_def Let_def split: if_splits)
    with True f1 have "f1 = f" by simp
    with assms show ?thesis by simp
  qed
qed

lemma GetTrustedHost_kept:
  assumes "GetTrustedHost f = (h, f1)" and "h \<noteq> []"
  shows "GetTrustedHost (f1\<lparr>Request := r'\<rparr>) = (h, f1\<lparr>Request := r'\<rparr>)"
proof -
  have "f1 = f\<lparr>trustedHost := h\<rparr>"
    using assms(1) GetTrustedHost_state [of f] by simp
  with assms(2) show ?thesis by (simp add: GetTrustedHost_cached)
qed

lemma GetTrustedProto_kept:
  assumes "GetTrustedProto f = (p, f2)"
  shows "GetTrustedProto (f2\<lparr>Request := r'\<rparr>) = (p, f2\<lparr>Request := r'\<rparr>)"
proof -
  have "p = fst (GetTrustedProto f)" and "f2 = f\<lparr>trustedProto := p\<rparr>"
    using assms GetTrustedProto_state [of f] by simp_all
  then show ?thesis
    using GetTrustedProto_nonempty [of f] by (simp add: GetTrustedProto_cached)
qed

lemma GetTrustedURL_stored:
  "GetTrustedURL reparse f = Inr (u, f3) \<Longrightarrow> trustedURL f3 = Some u"
  by (auto simp: GetTrustedURL_def Let_def case_prod_beta split: option.splits)

lemma GetTrustedURL_cached:
  "trustedURL f = Some u \<Longrightarrow> GetTrustedURL reparse f = Inr (u, f)"
  by (simp add: GetTrustedURL_def)

lemma GetTrustedRequest_stored:
  "GetTrustedRequest reparse String f = Inr (t, f4) \<Longrightarrow> trustedRequest f4 = Some t"
  by (auto simp: GetTrustedRequest_def Let_def case_prod_beta
      split: option.splits sum.splits if_splits)

lemma GetTrustedRequest_cached:
  "trustedRequest f = Some t \<Longrightarrow> GetTrustedRequest reparse String f = Inr (t, f)"
  by (simp add: GetTrustedRequest_def)

text \<open>
  The host and the protocol depend on the request, the proxy address and their own
  stored value only.
\<close>

lemma GetTrustedHost_stable:
  assumes "Request g = Request f" and "proxyIP g = proxyIP f"
    and "trustedHost g = trustedHost f \<or> trustedHost g = fst (GetTrustedHost f)"
  shows "fst (GetTrustedHost g) = fst (GetTrustedHost f)"
  using assms by (auto simp: GetTrustedHost_def Let_def)

lemma GetTrustedProto_stable:
  assumes "Request g = Request f" and "proxyIP g = proxyIP f"
    and "trustedProto g = trustedProto f \<or> trustedProto g = fst (GetTrustedProto f)"
  shows "fst (GetTrustedProto g) = fst (GetTrustedProto f)"
  using assms by (auto simp: GetTrustedProto_def Let_def)

lemma GetTrustedURL_eq:
  "GetTrustedURL reparse f =
     (case trustedURL f of
        Some cached \<Rightarrow> Inr (cached, f)
      | None \<Rightarrow>
          (case reparse (URL (Request f)) of
             None \<Rightarrow> Inl Panic_nil_dereference
           | Some u \<Rightarrow>
               Inr (u\<lparr>URL_Host := fst (GetTrustedHost f), Scheme := fst (GetTrustedProto f)\<rparr>,
                    f\<lparr>trustedHost := fst (GetTrustedHost f),
                      trustedProto := fst (GetTrustedProto f),
                      trustedURL := Some (u\<lparr>URL_Host := fst (GetTrustedHost f),
                                             Scheme := fst (GetTrustedProto f)\<rparr>)\<rparr>)))"
proof -
  have p: "fst (GetTrustedProto (f\<lparr>trustedHost := x\<rparr>)) = fst (GetTrustedProto f)" for x
    by (rule GetTrustedProto_stable) simp_all
  show ?thesis
    unfolding GetTrustedURL_def
    by (simp add: Let_def case_prod_beta GetTrustedHost_state GetTrustedProto_state p
        split: option.splits)
qed

lemma GetTrustedURL_frame:
  assumes "GetTrustedURL reparse f = Inr (u, fu)"
  shows "Request fu = Request f \<and> proxyIP fu = proxyIP f
    \<and> trustedRemoteAddr fu = trustedRemoteAddr f
    \<and> trustedForwardedFor fu = trustedForwardedFor f
    \<and> trustedRequest fu = trustedRequest f
    \<and> (trustedHost fu = trustedHost f \<or> trustedHost fu = fst (GetTrustedHost f))
    \<and> (trustedProto fu = trustedProto f \<or> trustedProto fu = fst (GetTrustedProto f))"
  using assms by (auto simp: GetTrustedURL_eq split: option.splits)

lemma GetTrustedURL_returns:
  "trustedURL f \<noteq> None \<or> reparse (URL (Request f)) \<noteq> None \<Longrightarrow>
     \<exists>u fu. GetTrustedURL reparse f = Inr (u, fu)"
  by (auto simp: GetTrustedURL_eq split: option.splits)

text \<open>
  Where the trusted URL is not stored and the string form of the URL does not parse,
  \<^verbatim>\<open>GetTrustedURL\<close> writes through the \<^verbatim>\<open>nil\<close> pointer that \<^verbatim>\<open>url.Parse\<close> has returned
  with its error, and so do the two methods that call it.
\<close>

lemma GetTrustedURL_panics:
  "trustedURL f = None \<Longrightarrow> reparse (URL (Request f)) = None \<Longrightarrow>
     GetTrustedURL reparse f = Inl Panic_nil_dereference"
  by (simp add: GetTrustedURL_def)

lemma GetTrustedURL_after_host_panics:
  assumes "trustedURL f = None" and "reparse (URL (Request f)) = None"
  shows "GetTrustedURL reparse (snd (GetTrustedHost f)) = Inl Panic_nil_dereference"
  by (rule GetTrustedURL_panics) (simp_all add: GetTrustedHost_state assms)

lemma GetTrustedRequest_panics:
  assumes "trustedRequest f = None" and "trustedURL f = None"
    and "reparse (URL (Request f)) = None"
  shows "GetTrustedRequest reparse String f = Inl Panic_nil_dereference"
  unfolding GetTrustedRequest_def
  by (simp add: assms(1) Let_def case_prod_beta
      GetTrustedURL_after_host_panics [of f reparse, OF assms(2,3)])

lemma BuildRequestForForward_panics:
  assumes "trustedURL f = None" and "reparse (URL (Request f)) = None"
  shows "BuildRequestForForward reparse String f stripForwardedIPs = Inl Panic_nil_dereference"
  unfolding BuildRequestForForward_def
  by (simp add: Let_def case_prod_beta
      GetTrustedURL_after_host_panics [of f reparse, OF assms])

lemma GetTrustedURL_after_host:
  assumes "GetTrustedURL reparse f = Inr (u, fu)"
  shows "GetTrustedURL reparse (snd (GetTrustedHost f))
     = Inr (u, fu\<lparr>trustedHost := fst (GetTrustedHost f)\<rparr>)"
proof -
  define h where "h = fst (GetTrustedHost f)"
  have hh: "fst (GetTrustedHost (f\<lparr>trustedHost := h\<rparr>)) = h"
    unfolding h_def by (rule GetTrustedHost_stable) simp_all
  have pp: "fst (GetTrustedProto (f\<lparr>trustedHost := h\<rparr>)) = fst (GetTrustedProto f)"
    by (rule GetTrustedProto_stable) simp_all
  show ?thesis
    using assms
    unfolding GetTrustedHost_state h_def [symmetric]
    by (auto simp: GetTrustedURL_eq hh pp h_def [symmetric] split: option.splits)
qed

lemma Header_Set_same: "Header_Set h key v key = Some [v]"
  by (simp add: Header_Set_def)

lemma Header_Set_other: "k \<noteq> key \<Longrightarrow> Header_Set h key v k = h k"
  by (simp add: Header_Set_def)

lemma Header_Del_same: "Header_Del h key key = None"
  by (simp add: Header_Del_def)

lemma Header_Del_other: "k \<noteq> key \<Longrightarrow> Header_Del h key k = h k"
  by (simp add: Header_Del_def)

text \<open>The first call of \<^verbatim>\<open>GetTrustedRequest\<close>, in closed form.\<close>

lemma GetTrustedRequest_fresh:
  assumes "trustedRequest f = None"
    and "GetTrustedURL reparse f = Inr (u, fu)"
  shows "GetTrustedRequest reparse String f =
     (let r = (Request f)\<lparr>Host := fst (GetTrustedHost f), URL := u,
                            RemoteAddr := String (trustedRemoteAddr f)\<rparr>;
          req = (if trustedForwardedFor f \<noteq> [] then
                   r\<lparr>Header := Header_Set (Header (Request f)) ''X-Forwarded-For''
                        (String (hd (trustedForwardedFor f)))\<rparr>
                 else
                   r\<lparr>Header := Header_Del (Header_Del (Header_Del (Header (Request f))
                        ''X-Forwarded-For'') ''X-Forwarded-Host'') ''X-Forwarded-Proto''\<rparr>)
      in Inr (req, fu\<lparr>trustedHost := fst (GetTrustedHost f), trustedRequest := Some req\<rparr>))"
proof -
  define h where "h = fst (GetTrustedHost f)"
  define f1 where "f1 = snd (GetTrustedHost f)"
  define f2 where "f2 = fu\<lparr>trustedHost := h\<rparr>"
  have host: "GetTrustedHost f = (h, f1)"
    by (simp add: h_def f1_def)
  have url: "GetTrustedURL reparse f1 = Inr (u, f2)"
    unfolding f1_def f2_def h_def using assms(2) by (rule GetTrustedURL_after_host)
  have fr: "trustedRemoteAddr fu = trustedRemoteAddr f"
    "trustedForwardedFor fu = trustedForwardedFor f"
    using GetTrustedURL_frame [OF assms(2)] by simp_all
  have hd0: "trustedForwardedFor f ! 0 = hd (trustedForwardedFor f)"
    if "trustedForwardedFor f \<noteq> []"
    using that by (simp add: hd_conv_nth)
  show ?thesis
    unfolding GetTrustedRequest_def h_def [symmetric]
    by (simp add: assms(1) host url fr Let_def GetTrustedRemoteAddr_def hd0 f2_def)
qed

text \<open>The example view, evaluated.\<close>

lemmas ex_defs = example_view_def example_header_def example_request_def new_forwardedRequest_def
  Header_Get_def strings_ToLower_def ToLower_char_def

lemma ex_host: "fst (GetTrustedHost (example_view rest)) = ''shop.example''"
  by (simp add: GetTrustedHost_def Let_def ex_defs)

lemma ex_proto: "fst (GetTrustedProto (example_view rest)) = ''https''"
  by (simp add: GetTrustedProto_def Let_def ex_defs)

lemma ex_fields:
  "trustedURL (example_view rest) = None"
  "trustedRequest (example_view rest) = None"
  "trustedProto (example_view rest) = []"
  "trustedRemoteAddr (example_view rest) = Some [1, 2, 3, 4]"
  "trustedForwardedFor (example_view rest) = rest"
  "URL (Request (example_view rest))
     = \<lparr>Scheme = [], URL_Host = [], Path = ''/index'', RawQuery = []\<rparr>"
  "Header (Request (example_view rest)) = example_header"
  by (simp_all add: example_view_def example_request_def new_forwardedRequest_def)

lemma ex_url:
  "\<exists>fu. GetTrustedURL url_Parse_String (example_view rest)
     = Inr (\<lparr>Scheme = ''https'', URL_Host = ''shop.example'', Path = ''/index'', RawQuery = []\<rparr>, fu)"
  by (simp add: GetTrustedURL_eq ex_host ex_proto ex_fields url_Parse_String_def)

lemma ex_strings:
  "String_dotted (Some [1, 2, 3, 4]) = ''1.2.3.4''"
  "String_dotted (Some [Suc 0, 2, 3, 4]) = ''1.2.3.4''"
  "String_dotted (Some [5, 6, 7, 8]) = ''5.6.7.8''"
  "String_dotted (Some [7, 7, 7, 7]) = ''7.7.7.7''"
  by (simp_all add: String_dotted_def strconv_Itoa.simps)

section \<open>The trusted protocol\<close>

text \<open>
  C8. \<^verbatim>\<open>GetTrustedProto\<close> returns, and stores, the trusted protocol of the specification:
  the protocol of the connection (https with TLS, http without) when the view is not behind
  a proxy; behind a proxy, http for an \<^verbatim>\<open>X-Forwarded-Proto\<close> value that is \<open>http\<close> or
  \<open>ws\<close> in any letter case, https for \<open>https\<close> or \<open>wss\<close> in any letter case, and the
  protocol of the connection for every other value and for a missing header. This holds for
  a view whose protocol is not stored yet, and again for the view that any such call leaves
  behind.
\<close>

theorem trusted_proto_mapping:
  assumes "trustedProto f = [] \<or> trustedProto f = spec_TrustedProto f"
  shows "GetTrustedProto f = (spec_TrustedProto f, f\<lparr>trustedProto := spec_TrustedProto f\<rparr>)"
proof -
  have ne: "spec_TrustedProto f \<noteq> []"
    by (simp add: spec_TrustedProto_def TLS_proto_def)
  from assms show ?thesis
  proof
    assume "trustedProto f = []"
    then show ?thesis
      by (simp add: GetTrustedProto_def spec_TrustedProto_def TLS_proto_def Let_def)
  next
    assume c: "trustedProto f = spec_TrustedProto f"
    with ne have "GetTrustedProto f = (trustedProto f, f)"
      by (simp add: GetTrustedProto_cached)
    with c show ?thesis by simp
  qed
qed

theorem trusted_proto_mapping_witness:
  "(trustedProto (example_view []) = [] \<or>
      trustedProto (example_view []) = spec_TrustedProto (example_view [])) \<and>
   spec_TrustedProto (example_view []) = ''https'' \<and>
   fst (GetTrustedProto (example_view [])) = ''https'' \<and>
   fst (GetTrustedProto (snd (GetTrustedProto (example_view [])))) = ''https''"
proof -
  let ?v = "example_view []"
  have e: "trustedProto ?v = [] \<or> trustedProto ?v = spec_TrustedProto ?v"
    by (simp add: ex_fields)
  have s: "spec_TrustedProto ?v = ''https''"
    by (simp add: spec_TrustedProto_def ex_defs)
  have s': "spec_TrustedProto (?v\<lparr>trustedProto := ''https''\<rparr>) = ''https''"
    by (simp add: spec_TrustedProto_def ex_defs)
  note first = trusted_proto_mapping [OF e]
  have "trustedProto (?v\<lparr>trustedProto := ''https''\<rparr>) = []
      \<or> trustedProto (?v\<lparr>trustedProto := ''https''\<rparr>)
          = spec_TrustedProto (?v\<lparr>trustedProto := ''https''\<rparr>)"
    by (simp add: s')
  note second = trusted_proto_mapping [OF this]
  from e s first second show ?thesis by (simp add: s s')
qed

section \<open>Memoisation\<close>

text \<open>
  Calling an accessor a second time returns the value, and leaves the state, of the first
  call. After the first call, replacing the request under the view by any other one does
  not change what the trusted protocol, the trusted URL and the trusted request return,
  nor what the trusted host returns when the host first computed is not empty.
\<close>

theorem accessors_memoized:
  "(GetTrustedHost f = (h, f1) \<longrightarrow>
      GetTrustedHost f1 = (h, f1) \<and>
      (h \<noteq> [] \<longrightarrow> GetTrustedHost (f1\<lparr>Request := r'\<rparr>) = (h, f1\<lparr>Request := r'\<rparr>))) \<and>
   (GetTrustedProto f = (p, f2) \<longrightarrow>
      GetTrustedProto f2 = (p, f2) \<and>
      GetTrustedProto (f2\<lparr>Request := r'\<rparr>) = (p, f2\<lparr>Request := r'\<rparr>)) \<and>
   (GetTrustedURL reparse f = Inr (u, f3) \<longrightarrow>
      GetTrustedURL reparse f3 = Inr (u, f3) \<and>
      GetTrustedURL reparse (f3\<lparr>Request := r'\<rparr>) = Inr (u, f3\<lparr>Request := r'\<rparr>)) \<and>
   (GetTrustedRequest reparse String f = Inr (t, f4) \<longrightarrow>
      GetTrustedRequest reparse String f4 = Inr (t, f4) \<and>
      GetTrustedRequest reparse String (f4\<lparr>Request := r'\<rparr>) = Inr (t, f4\<lparr>Request := r'\<rparr>))"
proof (intro conjI impI)
  assume a: "GetTrustedHost f = (h, f1)"
  show "GetTrustedHost f1 = (h, f1)" using a by (rule GetTrustedHost_again)
  show "GetTrustedHost (f1\<lparr>Request := r'\<rparr>) = (h, f1\<lparr>Request := r'\<rparr>)" if "h \<noteq> []"
    using a that by (rule GetTrustedHost_kept)
next
  assume a: "GetTrustedProto f = (p, f2)"
  show "GetTrustedProto (f2\<lparr>Request := r'\<rparr>) = (p, f2\<lparr>Request := r'\<rparr>)"
    using a by (rule GetTrustedProto_kept)
  from GetTrustedProto_kept [OF a, of "Request f2"]
  show "GetTrustedProto f2 = (p, f2)" by simp
next
  assume a: "GetTrustedURL reparse f = Inr (u, f3)"
  then have s: "trustedURL f3 = Some u" by (rule GetTrustedURL_stored)
  then show "GetTrustedURL reparse f3 = Inr (u, f3)" by (rule GetTrustedURL_cached)
  from s show "GetTrustedURL reparse (f3\<lparr>Request := r'\<rparr>) = Inr (u, f3\<lparr>Request := r'\<rparr>)"
    by (simp add: GetTrustedURL_cached)
next
  assume a: "GetTrustedRequest reparse String f = Inr (t, f4)"
  then have s: "trustedRequest f4 = Some t" by (rule GetTrustedRequest_stored)
  then show "GetTrustedRequest reparse String f4 = Inr (t, f4)" by (rule GetTrustedRequest_cached)
  from s show "GetTrustedRequest reparse String (f4\<lparr>Request := r'\<rparr>) = Inr (t, f4\<lparr>Request := r'\<rparr>)"
    by (simp add: GetTrustedRequest_cached)
qed

theorem accessors_memoized_witness:
  "fst (GetTrustedHost (example_view [])) = ''shop.example'' \<and>
   GetTrustedHost ((snd (GetTrustedHost (example_view [])))
       \<lparr>Request := example_request ''evil.example'' ''6.6.6.6:1'' Map.empty True\<rparr>)
     = (''shop.example'', (snd (GetTrustedHost (example_view [])))
         \<lparr>Request := example_request ''evil.example'' ''6.6.6.6:1'' Map.empty True\<rparr>) \<and>
   GetTrustedProto ((snd (GetTrustedProto (example_view [])))
       \<lparr>Request := example_request ''evil.example'' ''6.6.6.6:1'' Map.empty True\<rparr>)
     = (''https'', (snd (GetTrustedProto (example_view [])))
         \<lparr>Request := example_request ''evil.example'' ''6.6.6.6:1'' Map.empty True\<rparr>) \<and>
   (\<exists>f3. GetTrustedURL url_Parse_String (example_view []) = Inr
       (\<lparr>Scheme = ''https'', URL_Host = ''shop.example'', Path = ''/index'', RawQuery = []\<rparr>, f3) \<and>
     GetTrustedURL url_Parse_String (f3\<lparr>Request := example_request ''evil.example'' ''6.6.6.6:1'' Map.empty True\<rparr>)
       = Inr (\<lparr>Scheme = ''https'', URL_Host = ''shop.example'', Path = ''/index'', RawQuery = []\<rparr>,
              f3\<lparr>Request := example_request ''evil.example'' ''6.6.6.6:1'' Map.empty True\<rparr>)) \<and>
   (\<exists>t f4. GetTrustedRequest url_Parse_String String_dotted (example_view []) = Inr (t, f4) \<and>
     Host t = ''shop.example'' \<and>
     GetTrustedRequest url_Parse_String String_dotted
         (f4\<lparr>Request := example_request ''evil.example'' ''6.6.6.6:1'' Map.empty True\<rparr>)
       = Inr (t, f4\<lparr>Request := example_request ''evil.example'' ''6.6.6.6:1'' Map.empty True\<rparr>))"
proof -
  let ?evil = "example_request ''evil.example'' ''6.6.6.6:1'' Map.empty True"
  let ?u = "\<lparr>Scheme = ''https'', URL_Host = ''shop.example'', Path = ''/index'', RawQuery = []\<rparr>"
  let ?v = "example_view []"
  obtain f3 where u: "GetTrustedURL url_Parse_String ?v = Inr (?u, f3)"
    using ex_url [of "[]"] by blast
  have fresh: "trustedRequest ?v = None" by (rule ex_fields)
  obtain t f4 where t: "GetTrustedRequest url_Parse_String String_dotted ?v = Inr (t, f4)"
    and ht: "Host t = ''shop.example''"
    using GetTrustedRequest_fresh [OF fresh u, of String_dotted] by (simp add: Let_def ex_host)
  have h: "GetTrustedHost ?v = (''shop.example'', snd (GetTrustedHost ?v))"
    using ex_host [of "[]"] by (simp add: prod_eq_iff)
  have p: "GetTrustedProto ?v = (''https'', snd (GetTrustedProto ?v))"
    using ex_proto [of "[]"] by (simp add: prod_eq_iff)
  from accessors_memoized [of ?v "''shop.example''" "snd (GetTrustedHost ?v)" ?evil
      "''https''" "snd (GetTrustedProto ?v)" url_Parse_String ?u f3 String_dotted t f4] h p u t ht
  show ?thesis
    by (simp add: ex_host)
qed

text \<open>
  C5. Every accessor of a view is to return, once it has computed its value, that value
  on every later call, also after the request under the view has been changed.
  \<^verbatim>\<open>GetTrustedHost\<close> stores the host it computes in every branch and tests the stored host
  against the empty string to know whether it has one, so a computed host that is empty
  is not kept: for a request without a host, not behind a proxy, the accessor returns the
  empty host; after the host of the request under the view has been changed, the same
  accessor returns the new host.
\<close>

theorem empty_host_recomputed:
  "fst (GetTrustedHost (new_forwardedRequest (example_request [] ''1.2.3.4:80'' Map.empty False)
          :: nat list forwardedRequest)) = [] \<and>
   fst (GetTrustedHost
     ((snd (GetTrustedHost (new_forwardedRequest (example_request [] ''1.2.3.4:80'' Map.empty False)
          :: nat list forwardedRequest)))
        \<lparr>Request := example_request ''evil.example'' ''1.2.3.4:80'' Map.empty False\<rparr>))
     = ''evil.example''"
  by (simp add: GetTrustedHost_def example_request_def new_forwardedRequest_def)

section \<open>The trusted request\<close>

text \<open>
  On a view whose trusted request has not been built yet and whose trusted URL
  \<^verbatim>\<open>GetTrustedURL\<close> returns, \<^verbatim>\<open>GetTrustedRequest\<close> returns and stores a copy of the request
  with the trusted host as host, the trusted URL as URL and the string form of the trusted
  remote address as remote address. With a residual chain that is not empty its
  \<^verbatim>\<open>X-Forwarded-For\<close> header holds the first entry of the chain alone and every other
  header is that of the request; with an empty residual chain \<^verbatim>\<open>X-Forwarded-For\<close>,
  \<^verbatim>\<open>X-Forwarded-Host\<close> and \<^verbatim>\<open>X-Forwarded-Proto\<close> are absent and every other header is
  that of the request.
\<close>

theorem trusted_request_copy:
  assumes "trustedRequest f = None"
    and "GetTrustedURL reparse f = Inr (u, fu)"
  shows "\<exists>req f'. GetTrustedRequest reparse String f = Inr (req, f')
    \<and> trustedRequest f' = Some req
    \<and> Host req = fst (GetTrustedHost f) \<and> URL req = u
    \<and> RemoteAddr req = String (trustedRemoteAddr f)
    \<and> Method req = Method (Request f) \<and> TLS req = TLS (Request f)
    \<and> (trustedForwardedFor f \<noteq> [] \<longrightarrow>
         Header req ''X-Forwarded-For'' = Some [String (hd (trustedForwardedFor f))]
         \<and> (\<forall>key. key \<noteq> ''X-Forwarded-For'' \<longrightarrow> Header req key = Header (Request f) key))
    \<and> (trustedForwardedFor f = [] \<longrightarrow>
         Header req ''X-Forwarded-For'' = None \<and> Header req ''X-Forwarded-Host'' = None
         \<and> Header req ''X-Forwarded-Proto'' = None
         \<and> (\<forall>key. key \<notin> {''X-Forwarded-For'', ''X-Forwarded-Host'', ''X-Forwarded-Proto''} \<longrightarrow>
               Header req key = Header (Request f) key))"
  unfolding GetTrustedRequest_fresh [OF assms]
  by (simp add: Let_def Header_Set_def Header_Del_def)

theorem trusted_request_copy_witness:
  "trustedRequest (example_view [Some [5, 6, 7, 8], Some [7, 7, 7, 7]]) = None \<and>
   trustedRequest (example_view []) = None \<and>
   (\<exists>req f'. GetTrustedRequest url_Parse_String String_dotted
         (example_view [Some [5, 6, 7, 8], Some [7, 7, 7, 7]]) = Inr (req, f')
      \<and> Host req = ''shop.example''
      \<and> URL req = \<lparr>Scheme = ''https'', URL_Host = ''shop.example'', Path = ''/index'',
                    RawQuery = []\<rparr>
      \<and> RemoteAddr req = ''1.2.3.4''
      \<and> Header req ''X-Forwarded-For'' = Some [''5.6.7.8'']
      \<and> Header req ''X-Forwarded-Host'' = Some [''shop.example'']
      \<and> Header req ''Accept'' = Some [''text/html'']) \<and>
   (\<exists>req f'. GetTrustedRequest url_Parse_String String_dotted (example_view []) = Inr (req, f')
      \<and> RemoteAddr req = ''1.2.3.4''
      \<and> Header req ''X-Forwarded-For'' = None
      \<and> Header req ''X-Forwarded-Host'' = None
      \<and> Header req ''X-Forwarded-Proto'' = None
      \<and> Header req ''Accept'' = Some [''text/html''])"
proof -
  let ?u = "\<lparr>Scheme = ''https'', URL_Host = ''shop.example'', Path = ''/index'', RawQuery = []\<rparr>"
  let ?a = "example_view [Some [5, 6, 7, 8], Some [7, 7, 7, 7]]"
  let ?b = "example_view []"
  obtain fa where ua: "GetTrustedURL url_Parse_String ?a = Inr (?u, fa)"
    using ex_url [of "[Some [5, 6, 7, 8], Some [7, 7, 7, 7]]"] by blast
  obtain fb where ub: "GetTrustedURL url_Parse_String ?b = Inr (?u, fb)"
    using ex_url [of "[]"] by blast
  have na: "trustedRequest ?a = None" and nb: "trustedRequest ?b = None"
    by (rule ex_fields)+
  from trusted_request_copy [OF na ua, of String_dotted]
  obtain req f' where r: "GetTrustedRequest url_Parse_String String_dotted ?a = Inr (req, f')"
    and v: "Host req = ''shop.example''" "URL req = ?u" "RemoteAddr req = ''1.2.3.4''"
      "Header req ''X-Forwarded-For'' = Some [''5.6.7.8'']"
    and o: "\<forall>key. key \<noteq> ''X-Forwarded-For'' \<longrightarrow> Header req key = example_header key"
    by (auto simp: ex_host ex_fields ex_strings)
  from o have "Header req ''X-Forwarded-Host'' = Some [''shop.example'']"
    and "Header req ''Accept'' = Some [''text/html'']"
    by (simp_all add: example_header_def)
  with r v have a: "\<exists>req f'. GetTrustedRequest url_Parse_String String_dotted ?a = Inr (req, f')
      \<and> Host req = ''shop.example'' \<and> URL req = ?u \<and> RemoteAddr req = ''1.2.3.4''
      \<and> Header req ''X-Forwarded-For'' = Some [''5.6.7.8'']
      \<and> Header req ''X-Forwarded-Host'' = Some [''shop.example'']
      \<and> Header req ''Accept'' = Some [''text/html'']"
    by blast
  from trusted_request_copy [OF nb ub, of String_dotted]
  obtain req f' where r: "GetTrustedRequest url_Parse_String String_dotted ?b = Inr (req, f')"
    and v: "RemoteAddr req = ''1.2.3.4''" "Header req ''X-Forwarded-For'' = None"
      "Header req ''X-Forwarded-Host'' = None" "Header req ''X-Forwarded-Proto'' = None"
    and o: "\<forall>key. key \<notin> {''X-Forwarded-For'', ''X-Forwarded-Host'', ''X-Forwarded-Proto''}
        \<longrightarrow> Header req key = example_header key"
    by (auto simp: ex_host ex_fields ex_strings)
  from o have "Header req ''Accept'' = Some [''text/html'']"
    by (simp add: example_header_def)
  with r v have b: "\<exists>req f'. GetTrustedRequest url_Parse_String String_dotted ?b = Inr (req, f')
      \<and> RemoteAddr req = ''1.2.3.4''
      \<and> Header req ''X-Forwarded-For'' = None
      \<and> Header req ''X-Forwarded-Host'' = None
      \<and> Header req ''X-Forwarded-Proto'' = None
      \<and> Header req ''Accept'' = Some [''text/html'']"
    by blast
  from na nb a b show ?thesis by blast
qed

text \<open>
  C9. \<^verbatim>\<open>GetTrustedRequest\<close> is to return, for every view, the copy of the request with the
  trusted host, URL and remote address and the rewritten forwarding headers. For the
  request line \<^verbatim>\<open>GET //a:b HTTP/1.1\<close> the string form of the URL is \<^verbatim>\<open>//a:b\<close>, which
  does not parse (\<^verbatim>\<open>:b\<close> is no port); \<^verbatim>\<open>GetTrustedURL\<close> drops the error and the call
  panics on the \<^verbatim>\<open>nil\<close> URL instead of returning a copy.
\<close>

theorem trusted_request_panics:
  "url_Parse_String (URL double_slash_request) = None \<and>
   GetTrustedRequest url_Parse_String String_dotted double_slash_view
     = Inl Panic_nil_dereference"
proof -
  have u: "url_Parse_String (URL (Request double_slash_view)) = None"
    by (simp add: url_Parse_String_def validOptionalPort_def double_slash_view_def
        double_slash_request_def example_request_def new_forwardedRequest_def)
  have n: "trustedRequest double_slash_view = None" "trustedURL double_slash_view = None"
    by (simp_all add: double_slash_view_def new_forwardedRequest_def)
  from u have "url_Parse_String (URL double_slash_request) = None"
    by (simp add: double_slash_view_def new_forwardedRequest_def)
  with GetTrustedRequest_panics [of double_slash_view url_Parse_String String_dotted, OF n u]
  show ?thesis by simp
qed

section \<open>The request for forwarding\<close>

text \<open>
  For every view whose trusted URL \<^verbatim>\<open>GetTrustedURL\<close> returns, and for both values of the
  flag, \<^verbatim>\<open>BuildRequestForForward\<close> returns a copy of the request with the trusted host and
  URL, in which \<^verbatim>\<open>X-Forwarded-For\<close> is the residual chain in its order followed by the
  trusted remote address, joined with a comma and a space, when the flag is false, and the
  trusted remote address alone when it is true; \<^verbatim>\<open>X-Forwarded-Host\<close> and
  \<^verbatim>\<open>X-Forwarded-Proto\<close> are the trusted host and protocol; \<^verbatim>\<open>X-Real-IP\<close> is absent; every
  other header is that of the request.
\<close>

theorem forward_request_headers:
  assumes "GetTrustedURL reparse f = Inr (u, fu)"
  shows "\<exists>req f'. BuildRequestForForward reparse String f stripForwardedIPs = Inr (req, f')
    \<and> Host req = fst (GetTrustedHost f) \<and> URL req = u
    \<and> Header req ''X-Forwarded-For'' =
        Some [strings_Join
          (if stripForwardedIPs then [String (trustedRemoteAddr f)]
           else map String (trustedForwardedFor f) @ [String (trustedRemoteAddr f)]) '', '']
    \<and> Header req ''X-Forwarded-Host'' = Some [fst (GetTrustedHost f)]
    \<and> Header req ''X-Forwarded-Proto'' = Some [fst (GetTrustedProto f)]
    \<and> Header req ''X-Real-IP'' = None
    \<and> (\<forall>key. key \<notin> {''X-Forwarded-For'', ''X-Forwarded-Host'', ''X-Forwarded-Proto'',
                      ''X-Real-IP''} \<longrightarrow> Header req key = Header (Request f) key)"
proof -
  define h where "h = fst (GetTrustedHost f)"
  define p where "p = fst (GetTrustedProto f)"
  define f1 where "f1 = snd (GetTrustedHost f)"
  define f2 where "f2 = fu\<lparr>trustedHost := h\<rparr>"
  define f3 where "f3 = snd (GetTrustedHost f2)"
  define f4 where "f4 = snd (GetTrustedProto f3)"
  note fu = GetTrustedURL_frame [OF assms]
  have host: "GetTrustedHost f = (h, f1)"
    by (simp add: h_def f1_def)
  have url: "GetTrustedURL reparse f1 = Inr (u, f2)"
    unfolding f1_def f2_def h_def using assms by (rule GetTrustedURL_after_host)
  have fr: "trustedRemoteAddr f2 = trustedRemoteAddr f"
    "trustedForwardedFor f2 = trustedForwardedFor f"
    using fu by (simp_all add: f2_def)
  have h2: "fst (GetTrustedHost f2) = h"
    unfolding h_def by (rule GetTrustedHost_stable) (use fu in \<open>simp_all add: f2_def h_def\<close>)
  then have host2: "GetTrustedHost f2 = (h, f3)"
    by (simp add: f3_def prod_eq_iff)
  have f3: "f3 = f2\<lparr>trustedHost := h\<rparr>"
    unfolding f3_def GetTrustedHost_state h2 ..
  have "fst (GetTrustedProto f3) = p"
    unfolding p_def by (rule GetTrustedProto_stable) (use fu in \<open>auto simp: f3 f2_def\<close>)
  then have proto: "GetTrustedProto f3 = (p, f4)"
    by (simp add: f4_def prod_eq_iff)
  show ?thesis
    unfolding BuildRequestForForward_def h_def [symmetric] p_def [symmetric]
    by (simp add: host url host2 proto fr Let_def GetTrustedRemoteAddr_def
        GetTrustedForwardedFor_def Header_Set_def Header_Del_def)
qed

theorem forward_request_headers_witness:
  "(\<exists>req f'. BuildRequestForForward url_Parse_String String_dotted
         (example_view [Some [5, 6, 7, 8], Some [7, 7, 7, 7]]) False = Inr (req, f')
      \<and> Host req = ''shop.example''
      \<and> Header req ''X-Forwarded-For'' = Some [''5.6.7.8, 7.7.7.7, 1.2.3.4'']
      \<and> Header req ''X-Forwarded-Host'' = Some [''shop.example'']
      \<and> Header req ''X-Forwarded-Proto'' = Some [''https'']
      \<and> Header req ''X-Real-IP'' = None
      \<and> Header req ''Accept'' = Some [''text/html'']) \<and>
   (\<exists>req f'. BuildRequestForForward url_Parse_String String_dotted
         (example_view [Some [5, 6, 7, 8], Some [7, 7, 7, 7]]) True = Inr (req, f')
      \<and> Header req ''X-Forwarded-For'' = Some [''1.2.3.4'']
      \<and> Header req ''X-Forwarded-Host'' = Some [''shop.example'']
      \<and> Header req ''X-Forwarded-Proto'' = Some [''https''])"
proof -
  let ?u = "\<lparr>Scheme = ''https'', URL_Host = ''shop.example'', Path = ''/index'', RawQuery = []\<rparr>"
  let ?a = "example_view [Some [5, 6, 7, 8], Some [7, 7, 7, 7]]"
  obtain fa where ua: "GetTrustedURL url_Parse_String ?a = Inr (?u, fa)"
    using ex_url [of "[Some [5, 6, 7, 8], Some [7, 7, 7, 7]]"] by blast
  from forward_request_headers [OF ua, of String_dotted False]
  obtain req f' where r: "BuildRequestForForward url_Parse_String String_dotted ?a False = Inr (req, f')"
    and v: "Host req = ''shop.example''"
      "Header req ''X-Forwarded-For'' = Some [''5.6.7.8, 7.7.7.7, 1.2.3.4'']"
      "Header req ''X-Forwarded-Host'' = Some [''shop.example'']"
      "Header req ''X-Forwarded-Proto'' = Some [''https'']"
      "Header req ''X-Real-IP'' = None"
    and o: "\<forall>key. key \<notin> {''X-Forwarded-For'', ''X-Forwarded-Host'', ''X-Forwarded-Proto'',
        ''X-Real-IP''} \<longrightarrow> Header req key = example_header key"
    by (auto simp: ex_host ex_proto ex_fields ex_strings)
  from o have "Header req ''Accept'' = Some [''text/html'']"
    by (simp add: example_header_def)
  with r v have a: "\<exists>req f'. BuildRequestForForward url_Parse_String String_dotted ?a False = Inr (req, f')
      \<and> Host req = ''shop.example''
      \<and> Header req ''X-Forwarded-For'' = Some [''5.6.7.8, 7.7.7.7, 1.2.3.4'']
      \<and> Header req ''X-Forwarded-Host'' = Some [''shop.example'']
      \<and> Header req ''X-Forwarded-Proto'' = Some [''https'']
      \<and> Header req ''X-Real-IP'' = None
      \<and> Header req ''Accept'' = Some [''text/html'']"
    by blast
  from forward_request_headers [OF ua, of String_dotted True]
  obtain req f' where "BuildRequestForForward url_Parse_String String_dotted ?a True = Inr (req, f')"
      "Header req ''X-Forwarded-For'' = Some [''1.2.3.4'']"
      "Header req ''X-Forwarded-Host'' = Some [''shop.example'']"
      "Header req ''X-Forwarded-Proto'' = Some [''https'']"
    by (auto simp: ex_host ex_proto ex_fields ex_strings)
  then have b: "\<exists>req f'. BuildRequestForForward url_Parse_String String_dotted ?a True = Inr (req, f')
      \<and> Header req ''X-Forwarded-For'' = Some [''1.2.3.4'']
      \<and> Header req ''X-Forwarded-Host'' = Some [''shop.example'']
      \<and> Header req ''X-Forwarded-Proto'' = Some [''https'']"
    by blast
  from a b show ?thesis by blast
qed

text \<open>
  C10. \<^verbatim>\<open>BuildRequestForForward\<close> is to return, for every view and both values of the
  flag, the clone with the forwarding headers rewritten. For the request line
  \<^verbatim>\<open>GET //a:b HTTP/1.1\<close> the string form of the URL does not parse, \<^verbatim>\<open>GetTrustedURL\<close>
  drops the error, and the call panics on the \<^verbatim>\<open>nil\<close> URL under either flag instead of
  returning a clone.
\<close>

theorem forward_request_panics:
  "BuildRequestForForward url_Parse_String String_dotted double_slash_view False
     = Inl Panic_nil_dereference \<and>
   BuildRequestForForward url_Parse_String String_dotted double_slash_view True
     = Inl Panic_nil_dereference"
proof -
  have u: "url_Parse_String (URL (Request double_slash_view)) = None"
    by (simp add: url_Parse_String_def validOptionalPort_def double_slash_view_def
        double_slash_request_def example_request_def new_forwardedRequest_def)
  have n: "trustedURL double_slash_view = None"
    by (simp add: double_slash_view_def new_forwardedRequest_def)
  have "BuildRequestForForward url_Parse_String String_dotted double_slash_view b
          = Inl Panic_nil_dereference" for b
    by (rule BuildRequestForForward_panics [of double_slash_view url_Parse_String, OF n u])
  then show ?thesis by simp
qed

end
